theory Spec2Isabelle
  imports Complex_Main
begin

section \<open>Python values and class bodies\<close>

text \<open>
  The module \<^verbatim>\<open>linearizer/transform.py\<close> is a small class hierarchy. Its class
  attributes (\<^verbatim>\<open>complexity\<close>, \<^verbatim>\<open>n\<close>) are assigned in class bodies, which Python
  executes once, top to bottom, when the \<^verbatim>\<open>class\<close> statement runs. The right-hand
  sides that occur are literals, a name, a product, a true division and a negation.
\<close>

datatype pyval = PyNone | PyInt int | PyFloat real

datatype pyerror = ValueError | TypeError | NameError | ZeroDivisionError | AttributeError

datatype expr = Lit pyval | Name string | Mult expr expr | TrueDiv expr expr | Neg expr

text \<open>The namespace of a class body, latest binding first.\<close>

type_synonym namespace = "(string \<times> pyval) list"

fun py_mult :: "pyval \<Rightarrow> pyval \<Rightarrow> pyerror + pyval" where
  "py_mult (PyInt i) (PyInt j) = Inr (PyInt (i * j))"
| "py_mult (PyInt i) (PyFloat s) = Inr (PyFloat (of_int i * s))"
| "py_mult (PyFloat r) (PyInt j) = Inr (PyFloat (r * of_int j))"
| "py_mult (PyFloat r) (PyFloat s) = Inr (PyFloat (r * s))"
| "py_mult _ _ = Inl TypeError"

fun py_num :: "pyval \<Rightarrow> real option" where
  "py_num (PyInt i) = Some (of_int i)"
| "py_num (PyFloat r) = Some r"
| "py_num PyNone = None"

definition py_truediv :: "pyval \<Rightarrow> pyval \<Rightarrow> pyerror + pyval" where
  "py_truediv u v =
     (case (py_num u, py_num v) of
        (Some r, Some s) \<Rightarrow> if s = 0 then Inl ZeroDivisionError else Inr (PyFloat (r / s))
      | _ \<Rightarrow> Inl TypeError)"

fun py_neg :: "pyval \<Rightarrow> pyerror + pyval" where
  "py_neg (PyInt i) = Inr (PyInt (- i))"
| "py_neg (PyFloat r) = Inr (PyFloat (- r))"
| "py_neg PyNone = Inl TypeError"

text \<open>
  A name in a class body is looked up in the namespace built so far (the module has no
  global of the names used, so a miss is a \<^verbatim>\<open>NameError\<close>). The body of a subclass
  starts from an empty namespace: the base class is not in scope.
\<close>

fun eval :: "namespace \<Rightarrow> expr \<Rightarrow> pyerror + pyval" where
  "eval ns (Lit v) = Inr v"
| "eval ns (Name k) = (case map_of ns k of None \<Rightarrow> Inl NameError | Some v \<Rightarrow> Inr v)"
| "eval ns (Mult e f) =
     (case eval ns e of Inl err \<Rightarrow> Inl err
      | Inr u \<Rightarrow> (case eval ns f of Inl err \<Rightarrow> Inl err | Inr v \<Rightarrow> py_mult u v))"
| "eval ns (TrueDiv e f) =
     (case eval ns e of Inl err \<Rightarrow> Inl err
      | Inr u \<Rightarrow> (case eval ns f of Inl err \<Rightarrow> Inl err | Inr v \<Rightarrow> py_truediv u v))"
| "eval ns (Neg e) = (case eval ns e of Inl err \<Rightarrow> Inl err | Inr u \<Rightarrow> py_neg u)"

fun exec_body :: "namespace \<Rightarrow> (string \<times> expr) list \<Rightarrow> pyerror + namespace" where
  "exec_body ns [] = Inr ns"
| "exec_body ns ((k, e) # rest) =
     (case eval ns e of Inl err \<Rightarrow> Inl err | Inr v \<Rightarrow> exec_body ((k, v) # ns) rest)"

section \<open>The class hierarchy\<close>

text \<open>
  \<open>Power_Base\<close> stands for the class the module calls \<^verbatim>\<open>_Power\<close> (an Isabelle
  name cannot start with an underscore).
\<close>

datatype pyclass =
    BaseTransformer
  | Abs | Loge | Log2 | Log10 | Exp
  | Power_Base | Power2 | Power3 | Power4 | Sqrt | Inv | InvPower2

fun base :: "pyclass \<Rightarrow> pyclass option" where
  "base BaseTransformer = None"
| "base Abs = Some BaseTransformer"
| "base Loge = Some BaseTransformer"
| "base Log2 = Some BaseTransformer"
| "base Log10 = Some BaseTransformer"
| "base Exp = Some BaseTransformer"
| "base Power_Base = Some BaseTransformer"
| "base Power2 = Some Power_Base"
| "base Power3 = Some Power_Base"
| "base Power4 = Some Power_Base"
| "base Sqrt = Some Power_Base"
| "base Inv = Some Power_Base"
| "base InvPower2 = Some Power_Base"

text \<open>The attribute assignments of each class body, in source order.\<close>

fun class_body :: "pyclass \<Rightarrow> (string \<times> expr) list" where
  "class_body BaseTransformer = [(''complexity'', Lit PyNone)]"
| "class_body Abs = [(''complexity'', Lit (PyInt 50))]"
| "class_body Loge = [(''complexity'', Lit (PyInt 26))]"
| "class_body Log2 = [(''complexity'', Lit (PyInt 25))]"
| "class_body Log10 = [(''complexity'', Lit (PyInt 35))]"
| "class_body Exp = [(''complexity'', Lit (PyInt 40))]"
| "class_body Power_Base =
     [(''n'', Lit (PyInt 1)), (''complexity'', Mult (Name ''n'') (Lit (PyInt 30)))]"
| "class_body Power2 = [(''n'', Lit (PyInt 2))]"
| "class_body Power3 = [(''n'', Lit (PyInt 3))]"
| "class_body Power4 = [(''n'', Lit (PyInt 4))]"
| "class_body Sqrt =
     [(''n'', TrueDiv (Lit (PyInt 1)) (Lit (PyInt 2))), (''complexity'', Lit (PyInt 33))]"
| "class_body Inv = [(''n'', Neg (Lit (PyInt 1))), (''complexity'', Lit (PyInt 37))]"
| "class_body InvPower2 = [(''n'', Neg (Lit (PyInt 2))), (''complexity'', Lit (PyInt 67))]"

definition class_dict :: "pyclass \<Rightarrow> pyerror + namespace" where
  "class_dict c = exec_body [] (class_body c)"

text \<open>The method resolution order: the class, then its chain of bases.\<close>

fun depth :: "pyclass \<Rightarrow> nat" where
  "depth c = (case base c of None \<Rightarrow> 0
              | Some b \<Rightarrow> (case base b of None \<Rightarrow> 1 | Some _ \<Rightarrow> 2))"

function mro :: "pyclass \<Rightarrow> pyclass list" where
  "mro c = c # (case base c of None \<Rightarrow> [] | Some b \<Rightarrow> mro b)"
  by pat_completeness auto
termination
proof (relation "measure depth")
  show "wf (measure depth)" by simp
next
  fix c b
  assume "base c = Some b"
  then show "(b, c) \<in> measure depth"
    by (cases c) auto
qed

text \<open>
  Attribute lookup on a class (and on an instance, for a name its instance dictionary
  does not hold): the first class of the resolution order whose dictionary binds the
  name.
\<close>

fun lookup_mro :: "pyclass list \<Rightarrow> string \<Rightarrow> pyerror + pyval" where
  "lookup_mro [] k = Inl AttributeError"
| "lookup_mro (c # cs) k =
     (case class_dict c of Inl err \<Rightarrow> Inl err
      | Inr ns \<Rightarrow> (case map_of ns k of Some v \<Rightarrow> Inr v | None \<Rightarrow> lookup_mro cs k))"

definition class_getattr :: "pyclass \<Rightarrow> string \<Rightarrow> pyerror + pyval" where
  "class_getattr c k = lookup_mro (mro c) k"

definition complexity :: "pyclass \<Rightarrow> pyerror + pyval" where
  "complexity c = class_getattr c ''complexity''"

section \<open>Array elements and the numpy operations used\<close>

text \<open>
  An element of a float array is a finite binary64 number, an infinity or NaN. A finite
  element is held as the real number it denotes. An operation whose exact result lies
  beyond the binary64 range overflows to an infinity, as it does in numpy; inside the
  range its result is taken to be the exact real, so the rounding to 53 bits (and with it
  underflow and the sign of zero) is not modelled. A division by zero gives an infinity
  and a warning, not an exception, and an undefined operation gives NaN.
\<close>

datatype npfloat = Fin real | PInf | NInf | NaN

fun isfinite :: "npfloat \<Rightarrow> bool" where
  "isfinite (Fin r) = True"
| "isfinite PInf = False"
| "isfinite NInf = False"
| "isfinite NaN = False"

text \<open>
  The binary64 numbers: \<open>m * 2 ^ e\<close> with \<open>\<bar>m\<bar> < 2 ^ 53\<close> and
  \<open>- 1074 \<le> e \<le> 971\<close>, the exponent written as \<open>e = k - 1074\<close>.
\<close>

definition is_binary64 :: "real \<Rightarrow> bool" where
  "is_binary64 r =
     (\<exists>m \<in> {- (2 ^ 53) <..< 2 ^ 53}. \<exists>k \<in> {0 .. 2045 :: nat}.
        r = real_of_int m * 2 ^ k / 2 ^ 1074)"

text \<open>
  The largest binary64 number is \<open>2 ^ 1024 - 2 ^ 971\<close>; an exact result rounds to an
  infinity from half a unit in the last place above it.
\<close>

definition overflow_threshold :: real where
  "overflow_threshold = 2 ^ 1024 - 2 ^ 970"

definition in_range :: "real \<Rightarrow> bool" where
  "in_range r = (\<bar>r\<bar> < overflow_threshold)"

definition signed_inf :: "real \<Rightarrow> npfloat" where
  "signed_inf s = (if 0 < s then PInf else if s < 0 then NInf else NaN)"

definition to_float :: "real \<Rightarrow> npfloat" where
  "to_float r = (if in_range r then Fin r else signed_inf r)"

fun np_add :: "npfloat \<Rightarrow> npfloat \<Rightarrow> npfloat" where
  "np_add (Fin r) (Fin s) = to_float (r + s)"
| "np_add NaN v = NaN"
| "np_add u NaN = NaN"
| "np_add PInf NInf = NaN"
| "np_add NInf PInf = NaN"
| "np_add PInf v = PInf"
| "np_add NInf v = NInf"
| "np_add (Fin r) v = v"

fun np_mul :: "npfloat \<Rightarrow> npfloat \<Rightarrow> npfloat" where
  "np_mul (Fin r) (Fin s) = to_float (r * s)"
| "np_mul NaN v = NaN"
| "np_mul u NaN = NaN"
| "np_mul PInf (Fin s) = signed_inf s"
| "np_mul NInf (Fin s) = signed_inf (- s)"
| "np_mul (Fin r) PInf = signed_inf r"
| "np_mul (Fin r) NInf = signed_inf (- r)"
| "np_mul PInf PInf = PInf"
| "np_mul NInf NInf = PInf"
| "np_mul PInf NInf = NInf"
| "np_mul NInf PInf = NInf"

fun np_div :: "npfloat \<Rightarrow> npfloat \<Rightarrow> npfloat" where
  "np_div (Fin r) (Fin s) = (if s = 0 then signed_inf r else to_float (r / s))"
| "np_div NaN v = NaN"
| "np_div u NaN = NaN"
| "np_div (Fin r) v = Fin 0"
| "np_div PInf (Fin s) = (if s < 0 then NInf else PInf)"
| "np_div NInf (Fin s) = (if s < 0 then PInf else NInf)"
| "np_div PInf PInf = NaN"
| "np_div PInf NInf = NaN"
| "np_div NInf PInf = NaN"
| "np_div NInf NInf = NaN"

fun np_abs :: "npfloat \<Rightarrow> npfloat" where
  "np_abs (Fin r) = Fin \<bar>r\<bar>"
| "np_abs PInf = PInf"
| "np_abs NInf = PInf"
| "np_abs NaN = NaN"

definition log_of :: "(real \<Rightarrow> real) \<Rightarrow> npfloat \<Rightarrow> npfloat" where
  "log_of f v =
     (case v of
        Fin r \<Rightarrow> if 0 < r then Fin (f r) else if r = 0 then NInf else NaN
      | PInf \<Rightarrow> PInf
      | NInf \<Rightarrow> NaN
      | NaN \<Rightarrow> NaN)"

definition np_log :: "npfloat \<Rightarrow> npfloat" where
  "np_log = log_of ln"

definition np_log2 :: "npfloat \<Rightarrow> npfloat" where
  "np_log2 = log_of (log 2)"

definition np_log10 :: "npfloat \<Rightarrow> npfloat" where
  "np_log10 = log_of (log 10)"

fun np_exp :: "npfloat \<Rightarrow> npfloat" where
  "np_exp (Fin r) = to_float (exp r)"
| "np_exp PInf = PInf"
| "np_exp NInf = Fin 0"
| "np_exp NaN = NaN"

fun np_sqrt :: "npfloat \<Rightarrow> npfloat" where
  "np_sqrt (Fin r) = (if r < 0 then NaN else Fin (sqrt r))"
| "np_sqrt PInf = PInf"
| "np_sqrt NInf = NaN"
| "np_sqrt NaN = NaN"

text \<open>
  \<^verbatim>\<open>np.power(v, p)\<close> on a float array and a finite scalar exponent: anything to the
  power 0 is 1; the exponent 0.5 is computed as the square root, so that every negative
  base, minus infinity included, gives NaN; any other exponent is C's \<^verbatim>\<open>pow\<close>, where an
  integral exponent multiplies or divides and a negative finite base with a fractional
  exponent is NaN.
\<close>

definition is_integral :: "real \<Rightarrow> bool" where
  "is_integral p = (of_int \<lfloor>p\<rfloor> = p)"

definition is_odd :: "real \<Rightarrow> bool" where
  "is_odd p = (is_integral p \<and> odd \<lfloor>p\<rfloor>)"

definition np_power :: "npfloat \<Rightarrow> real \<Rightarrow> npfloat" where
  "np_power v p =
     (if p = 0 then Fin 1
      else if p = 1 / 2 then np_sqrt v
      else case v of
        NaN \<Rightarrow> NaN
      | PInf \<Rightarrow> if 0 < p then PInf else Fin 0
      | NInf \<Rightarrow> if p < 0 then Fin 0 else if is_odd p then NInf else PInf
      | Fin r \<Rightarrow>
          if is_integral p then
            (if 0 < p then to_float (r ^ nat \<lfloor>p\<rfloor>)
             else if r = 0 then PInf
             else to_float (1 / r ^ nat (- \<lfloor>p\<rfloor>)))
          else if r < 0 then NaN
          else if r = 0 then (if 0 < p then Fin 0 else PInf)
          else to_float (r powr p))"

section \<open>The kernels\<close>

text \<open>
  Every kernel is applied to \<^verbatim>\<open>a * x + b\<close> with \<^verbatim>\<open>x\<close> a one-dimensional float array
  and \<^verbatim>\<open>a\<close>, \<^verbatim>\<open>b\<close> float scalars; numpy broadcasts the scalars over the array.
\<close>

definition affine :: "npfloat \<Rightarrow> npfloat \<Rightarrow> npfloat \<Rightarrow> npfloat" where
  "affine a b v = np_add (np_mul a v) b"

definition Abs_call :: "npfloat list \<Rightarrow> npfloat \<Rightarrow> npfloat \<Rightarrow> npfloat list" where
  "Abs_call x a b = map (\<lambda>v. np_abs (affine a b v)) x"

definition Loge_call :: "npfloat list \<Rightarrow> npfloat \<Rightarrow> npfloat \<Rightarrow> npfloat list" where
  "Loge_call x a b = map (\<lambda>v. np_log (affine a b v)) x"

definition Log2_call :: "npfloat list \<Rightarrow> npfloat \<Rightarrow> npfloat \<Rightarrow> npfloat list" where
  "Log2_call x a b = map (\<lambda>v. np_log2 (affine a b v)) x"

definition Log10_call :: "npfloat list \<Rightarrow> npfloat \<Rightarrow> npfloat \<Rightarrow> npfloat list" where
  "Log10_call x a b = map (\<lambda>v. np_log10 (affine a b v)) x"

definition Exp_call :: "npfloat list \<Rightarrow> npfloat \<Rightarrow> npfloat \<Rightarrow> npfloat list" where
  "Exp_call x a b = map (\<lambda>v. np_exp (affine a b v)) x"

text \<open>
  The literal \<^verbatim>\<open>1e-15\<close> denotes the binary64 number nearest to \<^verbatim>\<open>10^-15\<close>, which is
  \<open>2535301200456459 / 2 ^ 101\<close>.
\<close>

definition eps :: real where
  "eps = 2535301200456459 / 2 ^ 101"

text \<open>
  \<^verbatim>\<open>_Power.__call__\<close> reads \<^verbatim>\<open>self.n\<close>: the instance holds no \<^verbatim>\<open>n\<close>, so the lookup
  goes through the classes of the instance's own class, the first argument here.
\<close>

definition Power_call ::
  "pyclass \<Rightarrow> npfloat list \<Rightarrow> npfloat \<Rightarrow> npfloat \<Rightarrow> pyerror + npfloat list" where
  "Power_call self_cls x a b =
     (case class_getattr self_cls ''n'' of
        Inl err \<Rightarrow> Inl err
      | Inr nv \<Rightarrow>
          (case py_num nv of
             None \<Rightarrow> Inl TypeError
           | Some n \<Rightarrow>
               if 0 < n then Inr (map (\<lambda>v. np_power (affine a b v) n) x)
               else Inr (map (\<lambda>v. np_div (Fin 1)
                                     (np_add (np_power (affine a b v) (- n)) (Fin eps))) x)))"

section \<open>Instances: parameters, introspection, application\<close>

text \<open>
  The parameter list, after \<^verbatim>\<open>self\<close>, of the \<^verbatim>\<open>__call__\<close> a class body defines;
  \<open>None\<close> for a class that defines none and inherits it.
\<close>

fun own_call :: "pyclass \<Rightarrow> string list option" where
  "own_call BaseTransformer = Some [''x'']"
| "own_call Abs = Some [''x'', ''a'', ''b'']"
| "own_call Loge = Some [''x'', ''a'', ''b'']"
| "own_call Log2 = Some [''x'', ''a'', ''b'']"
| "own_call Log10 = Some [''x'', ''a'', ''b'']"
| "own_call Exp = Some [''x'', ''a'', ''b'']"
| "own_call Power_Base = Some [''x'', ''a'', ''b'']"
| "own_call Power2 = None"
| "own_call Power3 = None"
| "own_call Power4 = None"
| "own_call Sqrt = None"
| "own_call Inv = None"
| "own_call InvPower2 = None"

text \<open>The class whose \<^verbatim>\<open>__call__\<close> an instance runs, with its parameter list.\<close>

fun find_call :: "pyclass list \<Rightarrow> (pyclass \<times> string list) option" where
  "find_call [] = None"
| "find_call (c # cs) = (case own_call c of Some sig \<Rightarrow> Some (c, sig) | None \<Rightarrow> find_call cs)"

definition resolve_call :: "pyclass \<Rightarrow> (pyclass \<times> string list) option" where
  "resolve_call c = find_call (mro c)"

text \<open>
  What \<^verbatim>\<open>__call__\<close> returns: an array, or, for the base class, the exception class
  \<^verbatim>\<open>NotImplementedError\<close> itself (returned, not raised).
\<close>

datatype pyresult = Array "npfloat list" | NotImplementedErrorClass

type_synonym kwargs = "string \<rightharpoonup> npfloat"

text \<open>The arguments \<^verbatim>\<open>a\<close> and \<^verbatim>\<open>b\<close> of a call, taken from its keywords.\<close>

definition with_a_b ::
  "kwargs \<Rightarrow> (npfloat \<Rightarrow> npfloat \<Rightarrow> pyerror + pyresult) \<Rightarrow> pyerror + pyresult" where
  "with_a_b kw f =
     (case kw ''a'' of
        None \<Rightarrow> Inl TypeError
      | Some a \<Rightarrow> (case kw ''b'' of None \<Rightarrow> Inl TypeError | Some b \<Rightarrow> f a b))"

text \<open>
  The body of the \<^verbatim>\<open>__call__\<close> defined by the class given first, run on an instance
  of the class given second. The base class returns the exception class; a class that
  defines no \<^verbatim>\<open>__call__\<close> has no body of its own.
\<close>

fun call_body :: "pyclass \<Rightarrow> pyclass \<Rightarrow> npfloat list \<Rightarrow> kwargs \<Rightarrow> pyerror + pyresult" where
  "call_body BaseTransformer self_cls x kw = Inr NotImplementedErrorClass"
| "call_body Abs self_cls x kw = with_a_b kw (\<lambda>a b. Inr (Array (Abs_call x a b)))"
| "call_body Loge self_cls x kw = with_a_b kw (\<lambda>a b. Inr (Array (Loge_call x a b)))"
| "call_body Log2 self_cls x kw = with_a_b kw (\<lambda>a b. Inr (Array (Log2_call x a b)))"
| "call_body Log10 self_cls x kw = with_a_b kw (\<lambda>a b. Inr (Array (Log10_call x a b)))"
| "call_body Exp self_cls x kw = with_a_b kw (\<lambda>a b. Inr (Array (Exp_call x a b)))"
| "call_body Power_Base self_cls x kw =
     with_a_b kw (\<lambda>a b. case Power_call self_cls x a b of
                           Inl err \<Rightarrow> Inl err
                         | Inr y \<Rightarrow> Inr (Array y))"
| "call_body owner self_cls x kw = Inl AttributeError"

text \<open>
  \<^verbatim>\<open>self.__call__(x, **kw)\<close>: \<^verbatim>\<open>x\<close> is passed by position and the mapping by
  keyword. No parameter has a default, so Python binds the call when the keys of the
  mapping are exactly the parameters other than \<^verbatim>\<open>x\<close>, and raises \<^verbatim>\<open>TypeError\<close>
  for a missing, an unexpected or a doubly given argument.
\<close>

definition invoke :: "pyclass \<Rightarrow> npfloat list \<Rightarrow> kwargs \<Rightarrow> pyerror + pyresult" where
  "invoke c x kw =
     (case resolve_call c of
        None \<Rightarrow> Inl TypeError
      | Some (owner, sig) \<Rightarrow>
          if dom kw = set sig - {''x''} then call_body owner c x kw else Inl TypeError)"

record transformer =
  cls :: pyclass
  params :: "kwargs option"

definition init :: "pyclass \<Rightarrow> transformer" where
  "init c = \<lparr>cls = c, params = None\<rparr>"

definition validate_input :: "transformer \<Rightarrow> npfloat list \<Rightarrow> bool" where
  "validate_input self x = list_all isfinite x"

definition get_params :: "transformer \<Rightarrow> string list" where
  "get_params self =
     (case resolve_call (cls self) of
        None \<Rightarrow> []
      | Some (owner, sig) \<Rightarrow> filter (\<lambda>k. k \<noteq> ''x'') sig)"

text \<open>
  \<^verbatim>\<open>set_params(self, params=None, **kwargs)\<close>: the first argument is \<open>None\<close> when
  the caller passes no mapping (or passes \<^verbatim>\<open>None\<close>).
\<close>

definition set_params :: "transformer \<Rightarrow> kwargs option \<Rightarrow> kwargs \<Rightarrow> transformer" where
  "set_params self p kw = self\<lparr>params := Some (case p of Some m \<Rightarrow> m | None \<Rightarrow> kw)\<rparr>"

definition transform :: "transformer \<Rightarrow> npfloat list \<Rightarrow> pyerror + pyresult" where
  "transform self x =
     (case params self of
        None \<Rightarrow> Inl ValueError
      | Some kw \<Rightarrow> invoke (cls self) x kw)"

definition DEFAULT_TRANSFORM :: "pyclass list" where
  "DEFAULT_TRANSFORM = [Loge, Exp, Power2, Sqrt, Inv]"

text \<open>
  The invariant as the specification words it: \<^verbatim>\<open>params\<close>, once set, holds exactly
  the names that introspection reports.
\<close>

definition spec_params_invariant :: "transformer \<Rightarrow> bool" where
  "spec_params_invariant self =
     (case params self of None \<Rightarrow> True | Some m \<Rightarrow> dom m = set (get_params self))"




section \<open>Class attributes\<close>

lemma class_dict_simps:
  "class_dict BaseTransformer = Inr [(''complexity'', PyNone)]"
  "class_dict Abs = Inr [(''complexity'', PyInt 50)]"
  "class_dict Loge = Inr [(''complexity'', PyInt 26)]"
  "class_dict Log2 = Inr [(''complexity'', PyInt 25)]"
  "class_dict Log10 = Inr [(''complexity'', PyInt 35)]"
  "class_dict Exp = Inr [(''complexity'', PyInt 40)]"
  "class_dict Power_Base = Inr [(''complexity'', PyInt 30), (''n'', PyInt 1)]"
  "class_dict Power2 = Inr [(''n'', PyInt 2)]"
  "class_dict Power3 = Inr [(''n'', PyInt 3)]"
  "class_dict Power4 = Inr [(''n'', PyInt 4)]"
  "class_dict Sqrt = Inr [(''complexity'', PyInt 33), (''n'', PyFloat (1 / 2))]"
  "class_dict Inv = Inr [(''complexity'', PyInt 37), (''n'', PyInt (- 1))]"
  "class_dict InvPower2 = Inr [(''complexity'', PyInt 67), (''n'', PyInt (- 2))]"
  by (simp_all add: class_dict_def py_truediv_def)

lemma mro_eq:
  "mro BaseTransformer = [BaseTransformer]"
  "mro Abs = [Abs, BaseTransformer]"
  "mro Loge = [Loge, BaseTransformer]"
  "mro Log2 = [Log2, BaseTransformer]"
  "mro Log10 = [Log10, BaseTransformer]"
  "mro Exp = [Exp, BaseTransformer]"
  "mro Power_Base = [Power_Base, BaseTransformer]"
  "mro Power2 = [Power2, Power_Base, BaseTransformer]"
  "mro Power3 = [Power3, Power_Base, BaseTransformer]"
  "mro Power4 = [Power4, Power_Base, BaseTransformer]"
  "mro Sqrt = [Sqrt, Power_Base, BaseTransformer]"
  "mro Inv = [Inv, Power_Base, BaseTransformer]"
  "mro InvPower2 = [InvPower2, Power_Base, BaseTransformer]"
  by simp_all

lemma resolve_call_eq:
  "resolve_call BaseTransformer = Some (BaseTransformer, [''x''])"
  "resolve_call Abs = Some (Abs, [''x'', ''a'', ''b''])"
  "resolve_call Loge = Some (Loge, [''x'', ''a'', ''b''])"
  "resolve_call Log2 = Some (Log2, [''x'', ''a'', ''b''])"
  "resolve_call Log10 = Some (Log10, [''x'', ''a'', ''b''])"
  "resolve_call Exp = Some (Exp, [''x'', ''a'', ''b''])"
  "resolve_call Power_Base = Some (Power_Base, [''x'', ''a'', ''b''])"
  "resolve_call Power2 = Some (Power_Base, [''x'', ''a'', ''b''])"
  "resolve_call Power3 = Some (Power_Base, [''x'', ''a'', ''b''])"
  "resolve_call Power4 = Some (Power_Base, [''x'', ''a'', ''b''])"
  "resolve_call Sqrt = Some (Power_Base, [''x'', ''a'', ''b''])"
  "resolve_call Inv = Some (Power_Base, [''x'', ''a'', ''b''])"
  "resolve_call InvPower2 = Some (Power_Base, [''x'', ''a'', ''b''])"
  by (simp_all add: resolve_call_def mro_eq)

lemma exponent_eq:
  "class_getattr Power_Base ''n'' = Inr (PyInt 1)"
  "class_getattr Power2 ''n'' = Inr (PyInt 2)"
  "class_getattr Power3 ''n'' = Inr (PyInt 3)"
  "class_getattr Power4 ''n'' = Inr (PyInt 4)"
  "class_getattr Sqrt ''n'' = Inr (PyFloat (1 / 2))"
  "class_getattr Inv ''n'' = Inr (PyInt (- 1))"
  "class_getattr InvPower2 ''n'' = Inr (PyInt (- 2))"
  by (simp_all add: class_getattr_def mro_eq class_dict_simps)

text \<open>
  C1. The specification reads \<^verbatim>\<open>Power2.complexity = 60\<close>, \<^verbatim>\<open>Power3.complexity = 90\<close>,
  \<^verbatim>\<open>Power4.complexity = 120\<close>. The code evaluates \<^verbatim>\<open>complexity = n * 30\<close> once, in
  the body of \<^verbatim>\<open>_Power\<close> where \<^verbatim>\<open>n\<close> is 1; the three subclasses rebind only
  \<^verbatim>\<open>n\<close> and inherit the value 30.
\<close>

theorem power_complexity_inherited_30:
  "complexity Power2 = Inr (PyInt 30) \<and> complexity Power3 = Inr (PyInt 30)
   \<and> complexity Power4 = Inr (PyInt 30)"
  by (simp add: complexity_def class_getattr_def mro_eq class_dict_simps)

text \<open>
  C8. The complexity constants of the simple kernels are Log2 = 25, Loge = 26,
  Log10 = 35, Exp = 40 and Abs = 50, a strictly increasing sequence.
\<close>

theorem simple_complexity_table:
  "\<exists>k2 ke k10 kx ka.
     complexity Log2 = Inr (PyInt k2) \<and> complexity Loge = Inr (PyInt ke)
     \<and> complexity Log10 = Inr (PyInt k10) \<and> complexity Exp = Inr (PyInt kx)
     \<and> complexity Abs = Inr (PyInt ka)
     \<and> k2 = 25 \<and> ke = 26 \<and> k10 = 35 \<and> kx = 40 \<and> ka = 50
     \<and> k2 < ke \<and> ke < k10 \<and> k10 < kx \<and> kx < ka"
  by (simp add: complexity_def class_getattr_def mro_eq class_dict_simps)

section \<open>Introspection and the stored parameters\<close>

lemma get_params_eq:
  "get_params self = (if cls self = BaseTransformer then [] else [''a'', ''b''])"
  by (cases "cls self") (simp_all add: get_params_def resolve_call_eq)

text \<open>
  C5. On an instance of any class of the default catalog (Loge, Exp, Power2, Sqrt, Inv),
  \<^verbatim>\<open>get_params()\<close> returns the list \<^verbatim>\<open>["a", "b"]\<close>, in this order.
\<close>

theorem default_catalog_get_params:
  "cls self \<in> set DEFAULT_TRANSFORM \<Longrightarrow> get_params self = [''a'', ''b'']"
  by (auto simp: DEFAULT_TRANSFORM_def get_params_eq)

theorem default_catalog_get_params_witness:
  "cls (init Sqrt) \<in> set DEFAULT_TRANSFORM \<and> get_params (init Sqrt) = [''a'', ''b'']"
proof -
  have h: "cls (init Sqrt) \<in> set DEFAULT_TRANSFORM"
    by (simp add: init_def DEFAULT_TRANSFORM_def)
  from h default_catalog_get_params [OF h] show ?thesis by simp
qed

text \<open>
  C10. When \<^verbatim>\<open>set_params\<close> receives a mapping that is not \<^verbatim>\<open>None\<close> together with
  keyword arguments, the mapping becomes the stored parameters and the keyword arguments
  are dropped.
\<close>

theorem set_params_mapping_wins:
  "params (set_params self (Some m) kw) = Some m"
  by (simp add: set_params_def)

text \<open>
  C3, as the code has it. \<^verbatim>\<open>set_params\<close> checks nothing: it stores the mapping it is
  given (the positional one unless it is \<^verbatim>\<open>None\<close>, the keyword arguments otherwise) and
  leaves introspection unchanged. So after the call the stored names are exactly those
  of \<^verbatim>\<open>get_params()\<close> if and only if the caller passed exactly those names.
\<close>

theorem set_params_stores_argument:
  "params (set_params self p kw) = Some (case p of Some m \<Rightarrow> m | None \<Rightarrow> kw)
   \<and> get_params (set_params self p kw) = get_params self
   \<and> spec_params_invariant (set_params self p kw) =
       (dom (case p of Some m \<Rightarrow> m | None \<Rightarrow> kw) = set (get_params self))"
  by (simp add: spec_params_invariant_def set_params_def get_params_def)

text \<open>
  The invariant does not hold after every call: \<^verbatim>\<open>Loge().set_params(a=1)\<close> stores the
  single name \<^verbatim>\<open>a\<close>, while introspection reports \<^verbatim>\<open>a\<close> and \<^verbatim>\<open>b\<close>.
\<close>

theorem set_params_unchecked_counterexample:
  "\<not> spec_params_invariant (set_params (init Loge) None [''a'' \<mapsto> Fin 1])"
  by (simp add: spec_params_invariant_def set_params_def init_def get_params_eq)

section \<open>Applying the stored parameters\<close>

lemma dom_a_b: "dom [''a'' \<mapsto> a, ''b'' \<mapsto> b] = set [''x'', ''a'', ''b''] - {''x''}"
  by auto

lemma invoke_power_family:
  assumes "resolve_call c = Some (Power_Base, [''x'', ''a'', ''b''])"
  shows "invoke c x [''a'' \<mapsto> a, ''b'' \<mapsto> b] =
           (case Power_call c x a b of Inl err \<Rightarrow> Inl err | Inr y \<Rightarrow> Inr (Array y))"
  using assms dom_a_b [of a b] by (simp add: invoke_def with_a_b_def del: set_simps)

lemma invoke_not_ValueError: "invoke c x kw \<noteq> Inl ValueError"
  by (cases c)
     (simp_all add: invoke_def resolve_call_eq with_a_b_def Power_call_def exponent_eq
        split: option.splits)

text \<open>
  C4. For every class, \<^verbatim>\<open>transform(x)\<close> on a freshly constructed instance raises the
  invalid-state error (\<^verbatim>\<open>ValueError\<close>); and on any instance \<^verbatim>\<open>transform\<close> raises that
  error exactly when no parameters have been set, so the kernel is reached only after
  \<^verbatim>\<open>set_params\<close>.
\<close>

theorem transform_needs_params:
  "transform (init c) x = Inl ValueError
   \<and> ((transform self y = Inl ValueError) = (params self = None))"
  by (simp add: transform_def init_def invoke_not_ValueError split: option.splits)

text \<open>
  C9. \<^verbatim>\<open>set_params()\<close> with no mapping and no keyword argument stores the empty
  mapping, not the unset state. On an instance of any variant (any class other than the
  abstract base, every one of which has a kernel taking \<^verbatim>\<open>a\<close> and \<^verbatim>\<open>b\<close>) a following
  \<^verbatim>\<open>transform(x)\<close> does not raise the invalid-state error: the call of the kernel
  without \<^verbatim>\<open>a\<close> and \<^verbatim>\<open>b\<close> raises \<^verbatim>\<open>TypeError\<close>.
\<close>

theorem set_params_without_arguments:
  assumes "cls self \<noteq> BaseTransformer"
  shows "params (set_params self None Map.empty) = Some Map.empty
         \<and> transform (set_params self None Map.empty) x \<noteq> Inl ValueError
         \<and> transform (set_params self None Map.empty) x = Inl TypeError"
  using assms
  by (cases "cls self") (simp_all add: set_params_def transform_def invoke_def resolve_call_eq)

theorem set_params_without_arguments_witness:
  "cls (init Exp) \<noteq> BaseTransformer
   \<and> params (set_params (init Exp) None Map.empty) = Some Map.empty
   \<and> transform (set_params (init Exp) None Map.empty) [Fin 0] = Inl TypeError"
proof -
  have h: "cls (init Exp) \<noteq> BaseTransformer" by (simp add: init_def)
  from h set_params_without_arguments [OF h, of "[Fin 0]"] show ?thesis by simp
qed

section \<open>Validation\<close>

text \<open>
  C7. \<^verbatim>\<open>validate_input(x)\<close> of the base class, which no class overrides, is true exactly
  when no element of \<^verbatim>\<open>x\<close> is NaN or an infinity: false as soon as one element is, true
  when all are finite.
\<close>

theorem validate_input_all_finite:
  "validate_input self x = (\<forall>v \<in> set x. v \<noteq> NaN \<and> v \<noteq> PInf \<and> v \<noteq> NInf)"
proof -
  have "isfinite v = (v \<noteq> NaN \<and> v \<noteq> PInf \<and> v \<noteq> NInf)" for v
    by (cases v) simp_all
  then show ?thesis
    by (simp add: validate_input_def list_all_iff)
qed

theorem validate_input_all_finite_witness:
  "validate_input (init BaseTransformer) [Fin 0, Fin (- 3)]
   \<and> \<not> validate_input (init BaseTransformer) [Fin 0, NaN]
   \<and> \<not> validate_input (init BaseTransformer) [PInf, Fin 1]
   \<and> \<not> validate_input (init BaseTransformer) [NInf]"
  using validate_input_all_finite [of "init BaseTransformer" "[Fin 0, Fin (- 3)]"]
    validate_input_all_finite [of "init BaseTransformer" "[Fin 0, NaN]"]
    validate_input_all_finite [of "init BaseTransformer" "[PInf, Fin 1]"]
    validate_input_all_finite [of "init BaseTransformer" "[NInf]"]
  by simp

section \<open>The power family\<close>












section \<open>The reciprocal with unit parameters\<close>

lemma binary64_bounded:
  assumes "is_binary64 r"
  shows "\<bar>r\<bar> \<le> 2 ^ 1024 - 2 ^ 971"
proof -
  from assms obtain m :: int and k :: nat
    where m: "- (2 ^ 53) < m" "m < 2 ^ 53" and k: "k \<le> 2045"
      and r: "r = real_of_int m * 2 ^ k / 2 ^ 1074"
    by (auto simp: is_binary64_def)
  from m have "\<bar>m\<bar> \<le> 2 ^ 53 - 1" by simp
  then have "real_of_int \<bar>m\<bar> \<le> real_of_int (2 ^ 53 - 1)" by (rule of_int_le_iff [THEN iffD2])
  then have am: "\<bar>real_of_int m\<bar> \<le> 2 ^ 53 - 1" by simp
  from k have pk: "(2::real) ^ k \<le> 2 ^ 2045" by (intro power_increasing) simp_all
  have "\<bar>r\<bar> = \<bar>real_of_int m\<bar> * 2 ^ k / 2 ^ 1074"
    by (simp add: r abs_mult)
  also have "\<dots> \<le> (2 ^ 53 - 1) * 2 ^ 2045 / 2 ^ 1074"
    using am pk by (intro divide_right_mono mult_mono) simp_all
  also have "\<dots> = 2 ^ 1024 - 2 ^ 971" by simp
  finally show ?thesis .
qed

lemma binary64_gap:
  assumes "is_binary64 r" and "r + eps \<noteq> 0"
  shows "1 / 2 ^ 103 \<le> \<bar>r + eps\<bar>"
proof -
  from assms(1) obtain m :: int and k :: nat
    where m: "- (2 ^ 53) < m" "m < 2 ^ 53" and k: "k \<le> 2045"
      and r: "r = real_of_int m * 2 ^ k / 2 ^ 1074"
    by (auto simp: is_binary64_def)
  have e: "eps = real_of_int (4 * 2535301200456459) / 2 ^ 103"
    by (simp add: eps_def)
  show ?thesis
  proof (cases "971 \<le> k")
    case True
    then obtain d where d: "k = d + 971" by (metis le_add_diff_inverse2)
    have "r = real_of_int (m * 2 ^ d) / 2 ^ 103"
      by (simp add: r d power_add)
    with e have s: "r + eps = real_of_int (m * 2 ^ d + 4 * 2535301200456459) / 2 ^ 103"
      by (simp only: of_int_add add_divide_distrib)
    have "m * 2 ^ d + 4 * 2535301200456459 \<noteq> 0"
    proof
      assume z: "m * 2 ^ d + 4 * 2535301200456459 = 0"
      have "r + eps = 0" unfolding s z by simp
      with assms(2) show False by simp
    qed
    then have "1 \<le> \<bar>m * 2 ^ d + 4 * 2535301200456459\<bar>" by simp
    then have "real_of_int 1 \<le> real_of_int \<bar>m * 2 ^ d + 4 * 2535301200456459\<bar>"
      by (rule of_int_le_iff [THEN iffD2])
    then have "1 \<le> \<bar>real_of_int (m * 2 ^ d + 4 * 2535301200456459)\<bar>" by simp
    then have "1 / 2 ^ 103 \<le> \<bar>real_of_int (m * 2 ^ d + 4 * 2535301200456459)\<bar> / 2 ^ 103"
      by (intro divide_right_mono) simp_all
    then show ?thesis by (simp add: s)
  next
    case False
    then have pk: "(2::real) ^ k \<le> 2 ^ 970" by (intro power_increasing) simp_all
    from m have "\<bar>m\<bar> \<le> 2 ^ 53" by simp
    then have "real_of_int \<bar>m\<bar> \<le> real_of_int (2 ^ 53)" by (rule of_int_le_iff [THEN iffD2])
    then have am: "\<bar>real_of_int m\<bar> \<le> 2 ^ 53" by simp
    have "\<bar>r\<bar> = \<bar>real_of_int m\<bar> * 2 ^ k / 2 ^ 1074"
      by (simp add: r abs_mult)
    also have "\<dots> \<le> 2 ^ 53 * 2 ^ 970 / 2 ^ 1074"
      using am pk by (intro divide_right_mono mult_mono) simp_all
    also have "\<dots> = 1 / 2 ^ 51" by simp
    finally have small: "\<bar>r\<bar> \<le> 1 / 2 ^ 51" .
    have big: "1 / 2 ^ 50 \<le> eps" by (simp add: eps_def)
    have "(1::real) / 2 ^ 103 \<le> 1 / 2 ^ 50 - 1 / 2 ^ 51" by simp
    with small big show ?thesis by linarith
  qed
qed

lemma inv_unit_element:
  assumes "is_binary64 r"
  shows "np_div (Fin 1) (np_add (np_power (affine (Fin 1) (Fin 0) (Fin r)) 1) (Fin eps))
           = (if r = - eps then PInf else Fin (1 / (r + eps)))"
proof -
  from binary64_bounded [OF assms] have b: "\<bar>r\<bar> \<le> 2 ^ 1024 - 2 ^ 971" .
  have "(2::real) ^ 1024 - 2 ^ 971 < 2 ^ 1024 - 2 ^ 970" by simp
  with b have r: "in_range r" by (simp only: in_range_def overflow_threshold_def)
  have "eps < 2 ^ 970" by (simp add: eps_def)
  moreover have "(2::real) ^ 1024 - 2 ^ 971 + 2 ^ 970 = 2 ^ 1024 - 2 ^ 970" by simp
  ultimately have "\<bar>r\<bar> + eps < 2 ^ 1024 - 2 ^ 970" using b by linarith
  moreover have "0 < eps" by (simp add: eps_def)
  ultimately have re: "in_range (r + eps)"
    unfolding in_range_def overflow_threshold_def by linarith
  have lin: "affine (Fin 1) (Fin 0) (Fin r) = Fin r"
    using r by (simp add: affine_def to_float_def)
  have pw: "np_power (Fin r) 1 = Fin r"
    using r by (simp add: np_power_def is_integral_def to_float_def)
  have sum: "np_add (Fin r) (Fin eps) = Fin (r + eps)"
    using re by (simp add: to_float_def)
  have step: "np_div (Fin 1) (np_add (np_power (affine (Fin 1) (Fin 0) (Fin r)) 1) (Fin eps))
                = np_div (Fin 1) (Fin (r + eps))"
    by (simp only: lin pw sum)
  show ?thesis
  proof (cases "r = - eps")
    case True
    then have "r + eps = 0" by simp
    with True show ?thesis unfolding step by (simp add: signed_inf_def)
  next
    case False
    then have nz: "r + eps \<noteq> 0" by linarith
    from binary64_gap [OF assms nz] have g: "1 / 2 ^ 103 \<le> \<bar>r + eps\<bar>" .
    have "\<bar>1 / (r + eps)\<bar> = 1 / \<bar>r + eps\<bar>" by simp
    also have "\<dots> \<le> 1 / (1 / 2 ^ 103)"
      using g nz by (intro divide_left_mono mult_pos_pos) simp_all
    also have "\<dots> < 2 ^ 1024 - 2 ^ 970" by simp
    finally have "in_range (1 / (r + eps))"
      by (simp only: in_range_def overflow_threshold_def)
    with False nz show ?thesis unfolding step by (simp add: to_float_def)
  qed
qed


lemma binary64_examples:
  "is_binary64 0" "is_binary64 1" "is_binary64 (- (2535301200456459 / 2 ^ 101))"
proof -
  show "is_binary64 0"
    unfolding is_binary64_def by (intro bexI [of _ 0]) simp_all
  show "is_binary64 1"
    unfolding is_binary64_def by (intro bexI [of _ 1] bexI [of _ 1074]) simp_all
  show "is_binary64 (- (2535301200456459 / 2 ^ 101))"
    unfolding is_binary64_def
    by (intro bexI [of _ "- 2535301200456459"] bexI [of _ 973]) simp_all
qed

lemma invoke_Inv_unit:
  "invoke Inv xs [''a'' \<mapsto> Fin 1, ''b'' \<mapsto> Fin 0]
     = Inr (Array (map (\<lambda>v. np_div (Fin 1)
                                (np_add (np_power (affine (Fin 1) (Fin 0) v) 1) (Fin eps))) xs))"
  by (simp add: invoke_power_family resolve_call_eq Power_call_def exponent_eq)

text \<open>
  C2, as the code has it. With \<^verbatim>\<open>a = 1\<close> and \<^verbatim>\<open>b = 0\<close>, \<^verbatim>\<open>Inv\<close> raises no exception
  on any input series and returns a series of the same length. For every element that
  is a finite binary64 number \<open>x\<close> other than \<^verbatim>\<open>-1e-15\<close>, zero included, the result
  element is the finite number \<open>1 / (x + \<epsilon>)\<close>, with \<open>\<epsilon> = 2535301200456459 / 2 ^ 101\<close>
  the binary64 number written \<^verbatim>\<open>1e-15\<close>; for an element equal to \<^verbatim>\<open>-1e-15\<close> it is
  plus infinity.
\<close>

theorem inv_apply_unit_params:
  "\<exists>ys. invoke Inv xs [''a'' \<mapsto> Fin 1, ''b'' \<mapsto> Fin 0] = Inr (Array ys)
      \<and> length ys = length xs
      \<and> (\<forall>i < length xs. \<forall>r. xs ! i = Fin r \<and> is_binary64 r \<longrightarrow>
            ys ! i = (if r = - (2535301200456459 / 2 ^ 101) then PInf
                      else Fin (1 / (r + 2535301200456459 / 2 ^ 101))))"
proof (intro exI conjI allI impI)
  show "invoke Inv xs [''a'' \<mapsto> Fin 1, ''b'' \<mapsto> Fin 0]
     = Inr (Array (map (\<lambda>v. np_div (Fin 1)
                                (np_add (np_power (affine (Fin 1) (Fin 0) v) 1) (Fin eps))) xs))"
    by (rule invoke_Inv_unit)
next
  show "length (map (\<lambda>v. np_div (Fin 1)
                      (np_add (np_power (affine (Fin 1) (Fin 0) v) 1) (Fin eps))) xs) = length xs"
    by simp
next
  fix i r
  assume i: "i < length xs" and x: "xs ! i = Fin r \<and> is_binary64 r"
  from x inv_unit_element [of r] i
  show "map (\<lambda>v. np_div (Fin 1)
               (np_add (np_power (affine (Fin 1) (Fin 0) v) 1) (Fin eps))) xs ! i
        = (if r = - (2535301200456459 / 2 ^ 101) then PInf
           else Fin (1 / (r + 2535301200456459 / 2 ^ 101)))"
    by (simp add: eps_def)
qed

theorem inv_apply_unit_params_witness:
  "is_binary64 0 \<and> is_binary64 1
   \<and> invoke Inv [Fin 0, Fin 1] [''a'' \<mapsto> Fin 1, ''b'' \<mapsto> Fin 0]
       = Inr (Array [Fin (2 ^ 101 / 2535301200456459),
                     Fin (1 / (1 + 2535301200456459 / 2 ^ 101))])"
proof -
  from inv_apply_unit_params [of "[Fin 0, Fin 1]"] obtain ys
    where inv: "invoke Inv [Fin 0, Fin 1] [''a'' \<mapsto> Fin 1, ''b'' \<mapsto> Fin 0] = Inr (Array ys)"
      and len: "length ys = 2"
      and el: "\<And>i r. i < 2 \<Longrightarrow> [Fin 0, Fin 1] ! i = Fin r \<Longrightarrow> is_binary64 r \<Longrightarrow>
                 ys ! i = (if r = - (2535301200456459 / 2 ^ 101) then PInf
                           else Fin (1 / (r + 2535301200456459 / 2 ^ 101)))"
    by auto
  from el [of 0 0] binary64_examples(1)
  have y0: "ys ! 0 = Fin (2 ^ 101 / 2535301200456459)" by simp
  from el [of 1 1] binary64_examples(2)
  have y1: "ys ! 1 = Fin (1 / (1 + 2535301200456459 / 2 ^ 101))" by simp
  from len obtain u v where "ys = [u, v]"
    by (cases ys; cases "tl ys") auto
  with y0 y1 have "ys = [Fin (2 ^ 101 / 2535301200456459),
                     Fin (1 / (1 + 2535301200456459 / 2 ^ 101))]" by simp
  with inv binary64_examples(1,2) show ?thesis by simp
qed

text \<open>
  The constant moves the pole of the reciprocal from 0 to \<^verbatim>\<open>-1e-15\<close>, itself a
  binary64 number: there the denominator is exactly zero and numpy's division returns
  an infinity.
\<close>

theorem inv_pole_counterexample:
  "is_binary64 (- (2535301200456459 / 2 ^ 101))
   \<and> invoke Inv [Fin (- (2535301200456459 / 2 ^ 101))] [''a'' \<mapsto> Fin 1, ''b'' \<mapsto> Fin 0]
       = Inr (Array [PInf])
   \<and> \<not> isfinite PInf"
  using binary64_examples(3) inv_unit_element [OF binary64_examples(3)]
  by (simp add: invoke_Inv_unit eps_def)

section \<open>Scenarios\<close>

lemma in_range_small: "\<bar>r\<bar> \<le> 2 ^ 64 \<Longrightarrow> in_range r"
  by (simp add: in_range_def overflow_threshold_def)

text \<open>\<^verbatim>\<open>Loge\<close> with \<^verbatim>\<open>a = 2\<close>, \<^verbatim>\<open>b = 1\<close> on \<^verbatim>\<open>[0, 1, 2]\<close> is \<^verbatim>\<open>ln [1, 3, 5]\<close>.\<close>

lemma loge_scenario:
  "transform (set_params (init Loge) None [''a'' \<mapsto> Fin 2, ''b'' \<mapsto> Fin 1]) [Fin 0, Fin 1, Fin 2]
     = Inr (Array [Fin (ln 1), Fin (ln 3), Fin (ln 5)])"
  by (simp add: transform_def set_params_def init_def invoke_def resolve_call_eq with_a_b_def
        Loge_call_def np_log_def log_of_def affine_def to_float_def in_range_small
        insert_commute)

text \<open>\<^verbatim>\<open>Power3\<close> with \<^verbatim>\<open>a = 1\<close>, \<^verbatim>\<open>b = 0\<close> on \<^verbatim>\<open>[-2, 0, 2]\<close> is \<^verbatim>\<open>[-8, 0, 8]\<close>.\<close>

lemma power3_scenario:
  "transform (set_params (init Power3) None [''a'' \<mapsto> Fin 1, ''b'' \<mapsto> Fin 0])
     [Fin (- 2), Fin 0, Fin 2]
     = Inr (Array [Fin (- 8), Fin 0, Fin 8])"
  by (simp add: transform_def set_params_def init_def invoke_power_family resolve_call_eq
        Power_call_def exponent_eq np_power_def is_integral_def affine_def to_float_def
        in_range_small)

text \<open>
  Beyond the finite range and the domain of the kernel: a fourth power that overflows,
  square roots of negative numbers and of the infinities, cubes of minus infinity and NaN.
\<close>

lemma outside_the_finite_range:
  "invoke Power4 [Fin (2 ^ 300)] [''a'' \<mapsto> Fin 1, ''b'' \<mapsto> Fin 0] = Inr (Array [PInf])"
  "invoke Sqrt [Fin (- 1), NInf, PInf] [''a'' \<mapsto> Fin 1, ''b'' \<mapsto> Fin 0]
     = Inr (Array [NaN, NaN, PInf])"
  "invoke Power3 [NInf, NaN] [''a'' \<mapsto> Fin 1, ''b'' \<mapsto> Fin 0] = Inr (Array [NInf, NaN])"
  by (simp_all add: invoke_power_family resolve_call_eq Power_call_def exponent_eq
        np_power_def is_integral_def is_odd_def affine_def to_float_def in_range_def
        overflow_threshold_def signed_inf_def)

end
